theory Spec2Isabelle
  imports Main "HOL-Library.Word" "HOL-Library.Char_ord" "HOL-Library.List_Lexorder"
    "HOL-Library.AList" "HOL-Library.Sublist"
begin

unbundle bit_operations_syntax

text \<open>
  A Go \<^verbatim>\<open>string\<close> and a \<^verbatim>\<open>[]byte\<close> are both sequences of bytes; an Isabelle
  \<^typ>\<open>char\<close> is one byte, so both are modelled as \<^typ>\<open>string\<close>. Strings are
  ordered byte by byte (the order of \<^verbatim>\<open>sort.Strings\<close>).
\<close>

section \<open>Go standard library: strings, strconv, fmt\<close>

text \<open>
  \<^verbatim>\<open>strings.TrimSpace\<close> removes leading and trailing white space as Unicode defines
  it, reading the string as UTF-8. White space is: the six ASCII bytes tab, line
  feed, vertical tab, form feed, carriage return and space; U+0085 and U+00A0 (two
  bytes each); U+1680, U+2000 to U+200A, U+2028, U+2029, U+202F, U+205F and U+3000
  (three bytes each). A byte that does not begin a valid encoding decodes to the
  replacement rune, which is not white space. \<^term>\<open>spaceRuneLen\<close> is the length of
  the white space rune a string begins with (0 when it begins with none),
  \<^term>\<open>spaceRuneLenLast\<close> that of the rune it ends with.
\<close>

definition asciiSpace :: "char \<Rightarrow> bool" where
  "asciiSpace c \<longleftrightarrow> c \<in> {CHR 0x09, CHR 0x0A, CHR 0x0B, CHR 0x0C, CHR 0x0D, CHR 0x20}"

definition spaceRuneLen :: "string \<Rightarrow> nat" where
  "spaceRuneLen s =
     (case s of
        [] \<Rightarrow> 0
      | c0 # s1 \<Rightarrow>
          if asciiSpace c0 then 1
          else (case s1 of
             [] \<Rightarrow> 0
           | c1 # s2 \<Rightarrow>
               if c0 = CHR 0xC2 \<and> (c1 = CHR 0x85 \<or> c1 = CHR 0xA0) then 2
               else (case s2 of
                  [] \<Rightarrow> 0
                | c2 # _ \<Rightarrow>
                    if c0 = CHR 0xE1 \<and> c1 = CHR 0x9A \<and> c2 = CHR 0x80 then 3
                    else if c0 = CHR 0xE2 \<and> c1 = CHR 0x80 \<and>
                        ((CHR 0x80 \<le> c2 \<and> c2 \<le> CHR 0x8A) \<or> c2 = CHR 0xA8 \<or> c2 = CHR 0xA9
                          \<or> c2 = CHR 0xAF) then 3
                    else if c0 = CHR 0xE2 \<and> c1 = CHR 0x81 \<and> c2 = CHR 0x9F then 3
                    else if c0 = CHR 0xE3 \<and> c1 = CHR 0x80 \<and> c2 = CHR 0x80 then 3
                    else 0)))"

definition spaceRuneLenLast :: "string \<Rightarrow> nat" where
  "spaceRuneLenLast s =
     (let n = length s in
      if 1 \<le> n \<and> spaceRuneLen (drop (n - 1) s) = 1 then 1
      else if 2 \<le> n \<and> spaceRuneLen (drop (n - 2) s) = 2 then 2
      else if 3 \<le> n \<and> spaceRuneLen (drop (n - 3) s) = 3 then 3
      else 0)"

function TrimLeftSpace :: "string \<Rightarrow> string" where
  "TrimLeftSpace s =
     (if spaceRuneLen s = 0 then s else TrimLeftSpace (drop (spaceRuneLen s) s))"
  by pat_completeness auto
termination
  by (relation "measure length") (auto simp: spaceRuneLen_def split: list.splits)

declare TrimLeftSpace.simps [simp del]

function TrimRightSpace :: "string \<Rightarrow> string" where
  "TrimRightSpace s =
     (if spaceRuneLenLast s = 0 then s
      else TrimRightSpace (take (length s - spaceRuneLenLast s) s))"
  by pat_completeness auto
termination
  by (relation "measure length") (auto simp: spaceRuneLenLast_def Let_def split: if_splits)

declare TrimRightSpace.simps [simp del]

definition TrimSpace :: "string \<Rightarrow> string" where
  "TrimSpace s = TrimRightSpace (TrimLeftSpace s)"

text \<open>
  \<^verbatim>\<open>strings.TrimRight\<close> for a cutset of ASCII bytes (the package calls it with
  \<open>/\<close>) drops every trailing byte that is in the cutset. \<^verbatim>\<open>strings.Join\<close> puts the
  separator between the elements. \<^verbatim>\<open>strconv.FormatBool\<close> writes \<open>true\<close> or \<open>false\<close>.
\<close>

definition TrimRight :: "string \<Rightarrow> string \<Rightarrow> string" where
  "TrimRight s cutset = rev (dropWhile (\<lambda>c. c \<in> set cutset) (rev s))"

fun Join :: "string list \<Rightarrow> string \<Rightarrow> string" where
  "Join [] sep = []"
| "Join [x] sep = x"
| "Join (x # y # ys) sep = x @ sep @ Join (y # ys) sep"

definition FormatBool :: "bool \<Rightarrow> string" where
  "FormatBool b = (if b then ''true'' else ''false'')"

definition digitChar :: "nat \<Rightarrow> char" where
  "digitChar d = char_of (48 + d)"

text \<open>
  \<^verbatim>\<open>fmt.Sprintf("%d", i)\<close>: the decimal digits of a non-negative number, most
  significant first, and a minus sign before the digits of a negative one.
\<close>

function decimal :: "int \<Rightarrow> string" where
  "decimal n =
     (if n < 10 then [digitChar (nat n)]
      else decimal (n div 10) @ [digitChar (nat (n mod 10))])"
  by pat_completeness auto
termination
  by (relation "measure nat") auto

declare decimal.simps [simp del]

definition FormatInt :: "int \<Rightarrow> string" where
  "FormatInt i = (if i < 0 then CHR ''-'' # decimal (- i) else decimal i)"

section \<open>Go standard library: net/url\<close>

text \<open>
  \<^verbatim>\<open>url.QueryEscape\<close>: letters, digits and \<open>- _ . ~\<close> stay, a space becomes \<open>+\<close>, every
  other byte becomes \<open>%\<close> and two upper-case hexadecimal digits.
\<close>

definition isAlnum :: "char \<Rightarrow> bool" where
  "isAlnum c \<longleftrightarrow> (CHR ''a'' \<le> c \<and> c \<le> CHR ''z'') \<or> (CHR ''A'' \<le> c \<and> c \<le> CHR ''Z'')
     \<or> (CHR ''0'' \<le> c \<and> c \<le> CHR ''9'')"

definition shouldEscape :: "char \<Rightarrow> bool" where
  "shouldEscape c \<longleftrightarrow>
     \<not> (isAlnum c \<or> c = CHR ''-'' \<or> c = CHR ''_'' \<or> c = CHR ''.'' \<or> c = CHR ''~'')"

definition upperhex :: "nat \<Rightarrow> char" where
  "upperhex d = ''0123456789ABCDEF'' ! d"

definition escapeByte :: "char \<Rightarrow> string" where
  "escapeByte c =
     (if shouldEscape c
      then (if c = CHR '' '' then ''+''
            else [CHR ''%'', upperhex (of_char c div 16), upperhex (of_char c mod 16)])
      else [c])"

definition QueryEscape :: "string \<Rightarrow> string" where
  "QueryEscape s = concat (map escapeByte s)"

text \<open>
  \<^verbatim>\<open>url.QueryUnescape\<close>: \<open>%\<close> must be followed by two hexadecimal digits (else the
  call fails, \<^term>\<open>None\<close>) and gives the byte they denote; \<open>+\<close> becomes a space.
\<close>

definition ishex :: "char \<Rightarrow> bool" where
  "ishex c \<longleftrightarrow> (CHR ''0'' \<le> c \<and> c \<le> CHR ''9'') \<or> (CHR ''a'' \<le> c \<and> c \<le> CHR ''f'')
     \<or> (CHR ''A'' \<le> c \<and> c \<le> CHR ''F'')"

definition unhex :: "char \<Rightarrow> nat" where
  "unhex c =
     (if CHR ''0'' \<le> c \<and> c \<le> CHR ''9'' then of_char c - of_char CHR ''0''
      else if CHR ''a'' \<le> c \<and> c \<le> CHR ''f'' then of_char c - of_char CHR ''a'' + 10
      else if CHR ''A'' \<le> c \<and> c \<le> CHR ''F'' then of_char c - of_char CHR ''A'' + 10
      else 0)"

fun QueryUnescape :: "string \<Rightarrow> string option" where
  "QueryUnescape [] = Some []"
| "QueryUnescape (c # cs) =
     (if c = CHR ''%'' then
        (case cs of
           h1 # h2 # rest \<Rightarrow>
             if ishex h1 \<and> ishex h2
             then map_option ((#) (char_of (unhex h1 * 16 + unhex h2))) (QueryUnescape rest)
             else None
         | _ \<Rightarrow> None)
      else map_option ((#) (if c = CHR ''+'' then CHR '' '' else c)) (QueryUnescape cs))"

text \<open>
  \<^verbatim>\<open>url.Values\<close> is a Go map from a key to its list of values. It is modelled as an
  association list with one entry per key; its order stands for nothing, since the
  only function that ranges over the map, \<^verbatim>\<open>Encode\<close>, sorts the keys first.
  \<^term>\<open>Values_index\<close> is the map index \<^verbatim>\<open>v[key]\<close> (the nil slice for a missing key),
  \<^term>\<open>Values_append\<close> the statement \<^verbatim>\<open>m[key] = append(m[key], value)\<close>.
\<close>

type_synonym Values = "(string \<times> string list) list"

definition Values_index :: "Values \<Rightarrow> string \<Rightarrow> string list" where
  "Values_index v key = (case map_of v key of None \<Rightarrow> [] | Some vs \<Rightarrow> vs)"

definition Values_Get :: "Values \<Rightarrow> string \<Rightarrow> string" where
  "Values_Get v key = (case Values_index v key of [] \<Rightarrow> [] | x # _ \<Rightarrow> x)"

definition Values_Set :: "Values \<Rightarrow> string \<Rightarrow> string \<Rightarrow> Values" where
  "Values_Set v key val = AList.update key [val] v"

definition Values_append :: "Values \<Rightarrow> string \<Rightarrow> string \<Rightarrow> Values" where
  "Values_append v key val = AList.update key (Values_index v key @ [val]) v"

definition Values_Encode :: "Values \<Rightarrow> string" where
  "Values_Encode v =
     Join (concat (map (\<lambda>k. map (\<lambda>x. QueryEscape k @ ''='' @ QueryEscape x) (Values_index v k))
                       (sort (map fst v)))) ''&''"

text \<open>
  \<^verbatim>\<open>strings.Cut\<close> for a separator of one byte: the part before the first separator, the
  part after it, and whether there was one. \<^verbatim>\<open>url.ParseQuery\<close> cuts the query at
  every \<open>&\<close>; it skips a segment that holds a semicolon, is empty, or whose key or
  value does not unescape, and appends every other pair to the map. (Its error
  result is dropped by \<^verbatim>\<open>URL.Query()\<close>; a limit on the number of parameters, where a
  toolchain has one, is not modelled.)
\<close>

definition Cut :: "string \<Rightarrow> char \<Rightarrow> string \<times> string \<times> bool" where
  "Cut s sep = (takeWhile (\<lambda>c. c \<noteq> sep) s, drop 1 (dropWhile (\<lambda>c. c \<noteq> sep) s), sep \<in> set s)"

lemma Cut_rest_shorter: "q \<noteq> [] \<Longrightarrow> length (fst (snd (Cut q c))) < length q"
proof -
  assume "q \<noteq> []"
  then have "0 < length q" by simp
  moreover have "length (dropWhile (\<lambda>x. x \<noteq> c) q) \<le> length q"
    by (rule length_dropWhile_le)
  ultimately have "length (dropWhile (\<lambda>x. x \<noteq> c) q) - 1 < length q"
    by arith
  then show ?thesis by (simp add: Cut_def)
qed

function parseQuery :: "Values \<Rightarrow> string \<Rightarrow> Values" where
  "parseQuery m query =
     (if query = [] then m
      else
        (let key = fst (Cut query CHR ''&''); query' = fst (snd (Cut query CHR ''&'')) in
         if CHR '';'' \<in> set key then parseQuery m query'
         else if key = [] then parseQuery m query'
         else
           (let val = fst (snd (Cut key CHR ''='')); key1 = fst (Cut key CHR ''='') in
            case QueryUnescape key1 of
              None \<Rightarrow> parseQuery m query'
            | Some key2 \<Rightarrow>
                (case QueryUnescape val of
                   None \<Rightarrow> parseQuery m query'
                 | Some val2 \<Rightarrow> parseQuery (Values_append m key2 val2) query'))))"
  by pat_completeness auto
termination
  by (relation "measure (\<lambda>(m, q). length q)") (auto simp: Cut_rest_shorter)

declare parseQuery.simps [simp del]

definition ParseQuery :: "string \<Rightarrow> Values" where
  "ParseQuery query = parseQuery [] query"

section \<open>Go standard library: crypto/sha256 and encoding/base64\<close>

text \<open>
  SHA-256 as in FIPS 180-4, on 32-bit words: padding to a multiple of 64 bytes with
  the bit length in the last eight, the message schedule of 64 words per block, 64
  rounds, and the digest as 32 bytes, most significant byte first.
\<close>

definition K256 :: "32 word list" where
  "K256 =
   [0x428A2F98, 0x71374491, 0xB5C0FBCF, 0xE9B5DBA5, 0x3956C25B, 0x59F111F1, 0x923F82A4,
    0xAB1C5ED5, 0xD807AA98, 0x12835B01, 0x243185BE, 0x550C7DC3, 0x72BE5D74, 0x80DEB1FE,
    0x9BDC06A7, 0xC19BF174, 0xE49B69C1, 0xEFBE4786, 0x0FC19DC6, 0x240CA1CC, 0x2DE92C6F,
    0x4A7484AA, 0x5CB0A9DC, 0x76F988DA, 0x983E5152, 0xA831C66D, 0xB00327C8, 0xBF597FC7,
    0xC6E00BF3, 0xD5A79147, 0x06CA6351, 0x14292967, 0x27B70A85, 0x2E1B2138, 0x4D2C6DFC,
    0x53380D13, 0x650A7354, 0x766A0ABB, 0x81C2C92E, 0x92722C85, 0xA2BFE8A1, 0xA81A664B,
    0xC24B8B70, 0xC76C51A3, 0xD192E819, 0xD6990624, 0xF40E3585, 0x106AA070, 0x19A4C116,
    0x1E376C08, 0x2748774C, 0x34B0BCB5, 0x391C0CB3, 0x4ED8AA4A, 0x5B9CCA4F, 0x682E6FF3,
    0x748F82EE, 0x78A5636F, 0x84C87814, 0x8CC70208, 0x90BEFFFA, 0xA4506CEB, 0xBEF9A3F7,
    0xC67178F2]"

type_synonym sha_state =
  "32 word \<times> 32 word \<times> 32 word \<times> 32 word \<times> 32 word \<times> 32 word \<times> 32 word \<times> 32 word"

definition sha_init :: sha_state where
  "sha_init = (0x6A09E667, 0xBB67AE85, 0x3C6EF372, 0xA54FF53A,
               0x510E527F, 0x9B05688C, 0x1F83D9AB, 0x5BE0CD19)"

definition sha_Ch :: "32 word \<Rightarrow> 32 word \<Rightarrow> 32 word \<Rightarrow> 32 word" where
  "sha_Ch x y z = (x AND y) XOR (NOT x AND z)"

definition sha_Maj :: "32 word \<Rightarrow> 32 word \<Rightarrow> 32 word \<Rightarrow> 32 word" where
  "sha_Maj x y z = (x AND y) XOR (x AND z) XOR (y AND z)"

definition sha_Sigma0 :: "32 word \<Rightarrow> 32 word" where
  "sha_Sigma0 x = word_rotr 2 x XOR word_rotr 13 x XOR word_rotr 22 x"

definition sha_Sigma1 :: "32 word \<Rightarrow> 32 word" where
  "sha_Sigma1 x = word_rotr 6 x XOR word_rotr 11 x XOR word_rotr 25 x"

definition sha_sigma0 :: "32 word \<Rightarrow> 32 word" where
  "sha_sigma0 x = word_rotr 7 x XOR word_rotr 18 x XOR drop_bit 3 x"

definition sha_sigma1 :: "32 word \<Rightarrow> 32 word" where
  "sha_sigma1 x = word_rotr 17 x XOR word_rotr 19 x XOR drop_bit 10 x"

definition be64 :: "int \<Rightarrow> string" where
  "be64 n = map (\<lambda>i. char_of (n div 2 ^ (8 * i))) [7, 6, 5, 4, 3, 2, 1, 0]"

definition sha_pad :: "string \<Rightarrow> string" where
  "sha_pad msg =
     msg @ [CHR 0x80] @ replicate ((119 - length msg mod 64) mod 64) (CHR 0x00)
       @ be64 ((8 * int (length msg)) mod 2 ^ 64)"

fun be_words :: "string \<Rightarrow> 32 word list" where
  "be_words (a # b # c # d # rest) =
     word_of_int (((of_char a * 256 + of_char b) * 256 + of_char c) * 256 + of_char d)
       # be_words rest"
| "be_words _ = []"

fun sha_schedule :: "nat \<Rightarrow> 32 word list \<Rightarrow> 32 word list" where
  "sha_schedule 0 w = w"
| "sha_schedule (Suc n) w =
     (let t = length w in
      sha_schedule n
        (w @ [sha_sigma1 (w ! (t - 2)) + w ! (t - 7) + sha_sigma0 (w ! (t - 15)) + w ! (t - 16)]))"

fun sha_round :: "sha_state \<Rightarrow> 32 word \<times> 32 word \<Rightarrow> sha_state" where
  "sha_round (a, b, c, d, e, f, g, h) (k, w) =
     (let t1 = h + sha_Sigma1 e + sha_Ch e f g + k + w;
          t2 = sha_Sigma0 a + sha_Maj a b c
      in (t1 + t2, a, b, c, d + t1, e, f, g))"

fun sha_add :: "sha_state \<Rightarrow> sha_state \<Rightarrow> sha_state" where
  "sha_add (a, b, c, d, e, f, g, h) (a', b', c', d', e', f', g', h') =
     (a + a', b + b', c + c', d + d', e + e', f + f', g + g', h + h')"

definition sha_block :: "sha_state \<Rightarrow> string \<Rightarrow> sha_state" where
  "sha_block st block =
     sha_add st (foldl sha_round st (zip K256 (sha_schedule 48 (be_words block))))"

function sha_blocks :: "sha_state \<Rightarrow> string \<Rightarrow> sha_state" where
  "sha_blocks st p =
     (if length p < 64 then st else sha_blocks (sha_block st (take 64 p)) (drop 64 p))"
  by pat_completeness auto
termination
  by (relation "measure (\<lambda>(st, p). length p)") auto

declare sha_blocks.simps [simp del]

definition be32 :: "32 word \<Rightarrow> string" where
  "be32 w = map (\<lambda>i. char_of (uint w div 2 ^ (8 * i))) [3, 2, 1, 0]"

fun sha_digest :: "sha_state \<Rightarrow> string" where
  "sha_digest (a, b, c, d, e, f, g, h) =
     be32 a @ be32 b @ be32 c @ be32 d @ be32 e @ be32 f @ be32 g @ be32 h"

definition Sum256 :: "string \<Rightarrow> string" where
  "Sum256 msg = sha_digest (sha_blocks sha_init (sha_pad msg))"

text \<open>
  \<^verbatim>\<open>base64.StdEncoding.EncodeToString\<close>: three bytes give four characters of the
  standard alphabet; a last group of one or two bytes is padded with \<open>=\<close>.
\<close>

definition encodeStd :: "nat \<Rightarrow> char" where
  "encodeStd i =
     ''ABCDEFGHIJKLMNOPQRSTUVWXYZabcdefghijklmnopqrstuvwxyz0123456789+/'' ! i"

fun EncodeToString :: "string \<Rightarrow> string" where
  "EncodeToString (a # b # c # rest) =
     [encodeStd (of_char a div 4),
      encodeStd ((of_char a mod 4) * 16 + of_char b div 16),
      encodeStd ((of_char b mod 16) * 4 + of_char c div 64),
      encodeStd (of_char c mod 64)] @ EncodeToString rest"
| "EncodeToString [a, b] =
     [encodeStd (of_char a div 4),
      encodeStd ((of_char a mod 4) * 16 + of_char b div 16),
      encodeStd ((of_char b mod 16) * 4),
      CHR ''='']"
| "EncodeToString [a] =
     [encodeStd (of_char a div 4), encodeStd ((of_char a mod 4) * 16), CHR ''='', CHR ''='']"
| "EncodeToString [] = []"

section \<open>Errors (errors.go)\<close>

text \<open>
  Go's \<^verbatim>\<open>int\<close> fields below are only compared and stored, never computed with, so
  they are modelled as \<^typ>\<open>int\<close>.
\<close>

record APIError =
  StatusCode :: int
  Message :: string
  Body :: string

text \<open>
  The sentinel errors of the package, the structured \<^verbatim>\<open>*APIError\<close>, the two errors
  of \<^verbatim>\<open>validate\<close> (each wraps \<^verbatim>\<open>ErrInvalidConfig\<close> and the sentinel of the missing
  field), and the two wrapped errors that \<^verbatim>\<open>doRequest\<close> builds with
  \<^verbatim>\<open>fmt.Errorf("...: %w", err)\<close> around the error text of the transport and of the
  body reader.
\<close>

datatype error =
    ErrInvalidConfig
  | ErrInvalidConfig_APIKeyRequired
  | ErrInvalidConfig_LibraryIDRequired
  | ErrVideoNotFound
  | ErrUnauthorized
  | ErrForbidden
  | ErrRateLimited
  | ErrBadRequest
  | ErrInternalServer
  | ErrServiceUnavailable
  | ErrTitleRequired
  | ErrVideoIDRequired
  | ErrResolutionRequired
  | ErrCDNHostnameRequired
  | ErrEmbedTokenKeyRequired
  | ErrCDNTokenKeyRequired
  | ErrAPI APIError
  | ErrPerformRequest string
  | ErrReadResponseBody string

definition parseErrorMessage :: "string \<Rightarrow> string" where
  "parseErrorMessage body =
     (if length body > 200 then take 200 body @ ''...'' else body)"

definition newAPIError :: "int \<Rightarrow> string \<Rightarrow> APIError" where
  "newAPIError statusCode body =
     \<lparr> StatusCode = statusCode, Message = parseErrorMessage body, Body = body \<rparr>"

section \<open>Status classification (checkResponseError)\<close>

text \<open>The result is Go's \<^verbatim>\<open>error\<close>: \<^term>\<open>None\<close> is \<^verbatim>\<open>nil\<close>.\<close>

definition checkResponseError :: "int \<Rightarrow> string \<Rightarrow> error option" where
  "checkResponseError statusCode body =
     (if statusCode = 200 \<or> statusCode = 201 \<or> statusCode = 202 \<or> statusCode = 204 then None
      else if statusCode = 400 then Some (ErrAPI (newAPIError statusCode body))
      else if statusCode = 401 then Some ErrUnauthorized
      else if statusCode = 404 then Some ErrVideoNotFound
      else if statusCode = 429 then Some ErrRateLimited
      else if statusCode = 500 then Some ErrInternalServer
      else if statusCode = 503 then Some ErrServiceUnavailable
      else if statusCode = 403 then Some ErrForbidden
      else Some (ErrAPI (newAPIError statusCode body)))"

section \<open>Response snapshot and request dispatch (newResponse, doRequest)\<close>

text \<open>
  What \<^verbatim>\<open>httpClient.Do\<close> hands back when it does not fail: the status code, the
  headers, and a body stream whose complete read (\<^verbatim>\<open>io.ReadAll\<close>) either fails with
  an error text or yields the bytes.
\<close>

type_synonym header = "(string \<times> string list) list"

record http_response =
  resp_StatusCode :: int
  resp_Header :: header
  resp_Body :: "string + string"

record Response =
  Response_StatusCode :: int
  Response_Headers :: header
  Response_Body :: string

definition newResponse :: "http_response \<Rightarrow> string + Response" where
  "newResponse resp =
     (case resp_Body resp of
        Inl err \<Rightarrow> Inl err
      | Inr respBody \<Rightarrow>
          Inr \<lparr> Response_StatusCode = resp_StatusCode resp,
                Response_Headers = resp_Header resp,
                Response_Body = respBody \<rparr>)"

text \<open>
  The request as far as this package reads or writes it. The transport is the
  function a request is dispatched with: the error text of a failed round trip, or
  the raw response.
\<close>

record http_request =
  Method :: string
  URL_Path :: string
  RawQuery :: string
  Header :: header
  ReqBody :: string

type_synonym transport = "http_request \<Rightarrow> string + http_response"

text \<open>
  \<^verbatim>\<open>doRequest\<close> returns Go's pair \<^verbatim>\<open>(*Response, error)\<close>; \<^term>\<open>None\<close> is \<^verbatim>\<open>nil\<close> in
  either component.
\<close>

definition doRequest :: "transport \<Rightarrow> http_request \<Rightarrow> Response option \<times> error option" where
  "doRequest httpClient_Do req =
     (case httpClient_Do req of
        Inl err \<Rightarrow> (None, Some (ErrPerformRequest err))
      | Inr resp \<Rightarrow>
          (case newResponse resp of
             Inl err \<Rightarrow> (None, Some (ErrReadResponseBody err))
           | Inr response \<Rightarrow>
               (case checkResponseError (Response_StatusCode response) (Response_Body response) of
                  Some err \<Rightarrow> (Some response, Some err)
                | None \<Rightarrow> (Some response, None))))"

section \<open>Configuration (Config.init, Config.validate)\<close>

text \<open>
  \<^verbatim>\<open>http.Client\<close> as far as the package touches it: the transport (\<^verbatim>\<open>nil\<close> selects
  Go's default transport) and the timeout. \<^verbatim>\<open>time.Duration\<close> is a count of
  nanoseconds. The logger and the mutex of \<^verbatim>\<open>Config\<close> carry no data that any
  function here reads.
\<close>

record http_Client =
  Transport :: "transport option"
  Client_Timeout :: int

record Config =
  APIKey :: string
  LibraryID :: string
  CDNHostname :: string
  EmbedTokenKey :: string
  CDNTokenKey :: string
  UserAgent :: string
  BaseURL :: string
  HTTPClient :: "http_Client option"
  MaxRetries :: int
  Timeout :: int

definition DefaultMaxRetries :: int where
  "DefaultMaxRetries = 3"

definition DefaultTimeout :: int where
  "DefaultTimeout = 60 * 1000000000"

definition DefaultUserAgent :: string where
  "DefaultUserAgent = ''bunnystream-go/0.1.0''"

definition DefaultBaseURL :: string where
  "DefaultBaseURL = ''https://video.bunnycdn.com''"

text \<open>The five guarded assignments of \<^verbatim>\<open>init\<close>, in the order of the source.\<close>

definition init :: "Config \<Rightarrow> Config" where
  "init c =
     (let c1 = (if UserAgent c = [] then c\<lparr>UserAgent := DefaultUserAgent\<rparr> else c);
          c2 = (if MaxRetries c1 < 1 then c1\<lparr>MaxRetries := DefaultMaxRetries\<rparr> else c1);
          c3 = (if Timeout c2 < 1 then c2\<lparr>Timeout := DefaultTimeout\<rparr> else c2);
          c4 = (if BaseURL c3 = [] then c3\<lparr>BaseURL := DefaultBaseURL\<rparr> else c3)
      in (if HTTPClient c4 = None
          then c4\<lparr>HTTPClient := Some \<lparr> Transport = None, Client_Timeout = Timeout c4 \<rparr>\<rparr>
          else c4))"

definition validate :: "Config \<Rightarrow> error option" where
  "validate c =
     (if APIKey c = [] then Some ErrInvalidConfig_APIKeyRequired
      else if LibraryID c = [] then Some ErrInvalidConfig_LibraryIDRequired
      else None)"


section \<open>Client (NewClient)\<close>

record Client =
  config :: Config
  httpClient :: "http_Client option"
  baseURL :: string
  libraryID :: string
  apiKey :: string

text \<open>
  \<^verbatim>\<open>NewClient\<close> takes a pointer; \<^term>\<open>None\<close> is the nil configuration. The
  configuration is defaulted in place, and the client keeps the pointer: its
  \<^term>\<open>config\<close> is the defaulted configuration.
\<close>

definition NewClient :: "Config option \<Rightarrow> error + Client" where
  "NewClient cfg =
     (case cfg of
        None \<Rightarrow> Inl ErrInvalidConfig
      | Some c \<Rightarrow>
          (case validate c of
             Some err \<Rightarrow> Inl err
           | None \<Rightarrow>
               (let c' = init c in
                Inr \<lparr> config = c', httpClient = HTTPClient c', baseURL = BaseURL c',
                      libraryID = LibraryID c', apiKey = APIKey c' \<rparr>)))"

section \<open>Query parameter builder (query\_builder.go)\<close>

text \<open>
  The builder holds a pointer to the request and its own \<^verbatim>\<open>url.Values\<close>, which
  \<^verbatim>\<open>URL.Query()\<close> parses afresh from the raw query (it shares nothing with the
  request). The model carries the state of the pointed-to request in \<^term>\<open>qb_req\<close>:
  a method that writes through the pointer returns a builder with a changed
  \<^term>\<open>qb_req\<close>. A \<^verbatim>\<open>*bool\<close> is a \<^typ>\<open>bool option\<close>, a \<^verbatim>\<open>[]string\<close> a list (the nil
  slice and the empty slice both have length 0).
\<close>

record queryBuilder =
  qb_req :: http_request
  qb_values :: Values

definition URL_Query :: "http_request \<Rightarrow> Values" where
  "URL_Query r = ParseQuery (RawQuery r)"

definition buildQuery :: "http_request \<Rightarrow> queryBuilder" where
  "buildQuery r = \<lparr> qb_req = r, qb_values = URL_Query r \<rparr>"

definition setBool :: "string \<Rightarrow> bool option \<Rightarrow> queryBuilder \<Rightarrow> queryBuilder" where
  "setBool key v q =
     (case v of
        Some b \<Rightarrow> q\<lparr>qb_values := Values_Set (qb_values q) key (FormatBool b)\<rparr>
      | None \<Rightarrow> q)"

definition setString :: "string \<Rightarrow> string \<Rightarrow> queryBuilder \<Rightarrow> queryBuilder" where
  "setString key v q =
     (if TrimSpace v \<noteq> [] then q\<lparr>qb_values := Values_Set (qb_values q) key v\<rparr> else q)"

definition setStrings :: "string \<Rightarrow> string list \<Rightarrow> queryBuilder \<Rightarrow> queryBuilder" where
  "setStrings key v q =
     (if length v > 0 then q\<lparr>qb_values := Values_Set (qb_values q) key (Join v '','')\<rparr>
      else q)"

definition apply_qb :: "queryBuilder \<Rightarrow> queryBuilder" where
  "apply_qb q = q\<lparr>qb_req := (qb_req q)\<lparr>RawQuery := Values_Encode (qb_values q)\<rparr>\<rparr>"

text \<open>A chain of setter calls on a builder, first call first.\<close>

datatype setter =
    SetBool string "bool option"
  | SetString string string
  | SetStrings string "string list"

fun call :: "setter \<Rightarrow> queryBuilder \<Rightarrow> queryBuilder" where
  "call (SetBool key v) q = setBool key v q"
| "call (SetString key v) q = setString key v q"
| "call (SetStrings key v) q = setStrings key v q"

definition chain :: "setter list \<Rightarrow> queryBuilder \<Rightarrow> queryBuilder" where
  "chain cs q = fold call cs q"

text \<open>
  How often a key occurs in a query string, and whether no key occurs twice, as
  \<^verbatim>\<open>URL.Query()\<close> reads the string.
\<close>

definition query_count :: "string \<Rightarrow> string \<Rightarrow> nat" where
  "query_count raw key = length (Values_index (ParseQuery raw) key)"


section \<open>URL signer (signCDNToken)\<close>

record SignedURLOptions =
  UserIP :: string
  CountriesAllowed :: string
  CountriesBlocked :: string

type_synonym SignedURLOption = "SignedURLOptions \<Rightarrow> SignedURLOptions"

definition WithUserIP :: "string \<Rightarrow> SignedURLOption" where
  "WithUserIP ip = (\<lambda>o'. o'\<lparr>UserIP := ip\<rparr>)"

definition WithCountriesAllowed :: "string \<Rightarrow> SignedURLOption" where
  "WithCountriesAllowed countries = (\<lambda>o'. o'\<lparr>CountriesAllowed := countries\<rparr>)"

definition WithCountriesBlocked :: "string \<Rightarrow> SignedURLOption" where
  "WithCountriesBlocked countries = (\<lambda>o'. o'\<lparr>CountriesBlocked := countries\<rparr>)"

text \<open>\<^verbatim>\<open>strings.ReplaceAll\<close> for a pattern of one byte.\<close>

definition ReplaceAll :: "string \<Rightarrow> char \<Rightarrow> string \<Rightarrow> string" where
  "ReplaceAll s old new = concat (map (\<lambda>c. if c = old then new else [c]) s)"

text \<open>
  The keys of \<^verbatim>\<open>extraParams\<close> are collected by ranging over the map, in an order Go
  leaves open, and sorted at once; the model ranges in the order of the association
  list. \<open>sort_keys_any_order\<close> below shows that the order does not matter.
  The error result is always nil.
\<close>

definition signCDNToken :: "string \<Rightarrow> string \<Rightarrow> int \<Rightarrow> SignedURLOptions \<Rightarrow> error + string" where
  "signCDNToken key path expiry opts =
     (let extraParams0 = ([] :: Values);
          extraParams1 = (if CountriesAllowed opts \<noteq> []
             then Values_Set extraParams0 ''token_countries'' (CountriesAllowed opts)
             else extraParams0);
          extraParams = (if CountriesBlocked opts \<noteq> []
             then Values_Set extraParams1 ''token_countries_blocked'' (CountriesBlocked opts)
             else extraParams1);
          keys = sort (map fst extraParams);
          pairs = map (\<lambda>k. k @ ''='' @ Values_Get extraParams k) keys;
          paramStr = Join pairs ''&'';
          hashable0 = key @ path @ FormatInt expiry;
          hashable1 = (if UserIP opts \<noteq> [] then hashable0 @ UserIP opts else hashable0);
          hashable = (if paramStr \<noteq> [] then hashable1 @ paramStr else hashable1);
          raw = Sum256 hashable;
          token0 = EncodeToString raw;
          token1 = ReplaceAll token0 (CHR 0x0A) [];
          token2 = ReplaceAll token1 CHR ''+'' ''-'';
          token3 = ReplaceAll token2 CHR ''/'' ''_'';
          token = ReplaceAll token3 CHR ''='' []
      in Inr token)"

section \<open>Playback and signed URLs (cdnBase, HLSPlaylistURL, SignedHLSURL)\<close>

definition cdnBase :: "Client \<Rightarrow> string \<Rightarrow> error + string" where
  "cdnBase c videoID =
     (if CDNHostname (config c) = [] then Inl ErrCDNHostnameRequired
      else (let host = TrimRight (CDNHostname (config c)) ''/''
            in Inr (''https://'' @ host @ ''/'' @ videoID)))"

definition HLSPlaylistURL :: "Client \<Rightarrow> string \<Rightarrow> error + string" where
  "HLSPlaylistURL c videoID =
     (if TrimSpace videoID = [] then Inl ErrVideoIDRequired
      else (case cdnBase c videoID of
              Inl err \<Rightarrow> Inl err
            | Inr base \<Rightarrow> Inr (base @ ''/playlist.m3u8'')))"

text \<open>
  \<^verbatim>\<open>time.Now()\<close> is an input: \<open>now\<close> is the clock reading in nanoseconds since the
  Unix epoch, \<open>ttl\<close> a \<^verbatim>\<open>time.Duration\<close> in nanoseconds, and \<^verbatim>\<open>Unix()\<close> the whole
  seconds of their sum, rounded down.
\<close>

definition unixAfter :: "int \<Rightarrow> int \<Rightarrow> int" where
  "unixAfter now ttl = (now + ttl) div 1000000000"

text \<open>The loop that runs every functional option on a fresh options struct.\<close>

definition applyOptions :: "SignedURLOption list \<Rightarrow> SignedURLOptions" where
  "applyOptions opts =
     fold (\<lambda>opt o'. opt o') opts
       \<lparr> UserIP = [], CountriesAllowed = [], CountriesBlocked = [] \<rparr>"

definition SignedHLSURL ::
  "Client \<Rightarrow> int \<Rightarrow> string \<Rightarrow> int \<Rightarrow> SignedURLOption list \<Rightarrow> error + string" where
  "SignedHLSURL c now videoID ttl opts =
     (if TrimSpace videoID = [] then Inl ErrVideoIDRequired
      else if CDNHostname (config c) = [] then Inl ErrCDNHostnameRequired
      else if CDNTokenKey (config c) = [] then Inl ErrCDNTokenKeyRequired
      else
        (let options = applyOptions opts;
             dirPath = ''/'' @ videoID @ ''/'';
             filePath = ''/'' @ videoID @ ''/playlist.m3u8'';
             expiry = unixAfter now ttl
         in case signCDNToken (CDNTokenKey (config c)) dirPath expiry options of
              Inl err \<Rightarrow> Inl err
            | Inr token \<Rightarrow>
                (let host = TrimRight (CDNHostname (config c)) ''/''
                 in Inr (''https://'' @ host @ ''/bcdn_token='' @ token @ ''&expires=''
                         @ FormatInt expiry @ ''&token_path='' @ QueryEscape dirPath
                         @ filePath))))"

text \<open>One \<open>key=value\<close> pair as \<^term>\<open>Values_Encode\<close> writes it.\<close>

definition encodePair :: "string \<times> string \<Rightarrow> string" where
  "encodePair kv = QueryEscape (fst kv) @ ''='' @ QueryEscape (snd kv)"

section \<open>The signer as the specification words it\<close>

text \<open>
  These three definitions follow the wording of the specification, not the code: the
  extra-parameter string, the hashable byte string, and the URL-safe transform. They
  are what \<^term>\<open>signCDNToken\<close> is compared with.
\<close>

definition spec_extra_params :: "SignedURLOptions \<Rightarrow> string" where
  "spec_extra_params opts =
     Join ((if CountriesAllowed opts \<noteq> []
            then [''token_countries='' @ CountriesAllowed opts] else [])
           @ (if CountriesBlocked opts \<noteq> []
              then [''token_countries_blocked='' @ CountriesBlocked opts] else [])) ''&''"

definition spec_hashable :: "string \<Rightarrow> string \<Rightarrow> int \<Rightarrow> SignedURLOptions \<Rightarrow> string" where
  "spec_hashable key path expiry opts =
     key @ path @ FormatInt expiry
       @ (if UserIP opts \<noteq> [] then UserIP opts else [])
       @ (if spec_extra_params opts \<noteq> [] then spec_extra_params opts else [])"

definition spec_url_safe :: "string \<Rightarrow> string" where
  "spec_url_safe t =
     filter (\<lambda>c. c \<noteq> CHR ''='' \<and> c \<noteq> CHR 0x0A)
       (map (\<lambda>c. if c = CHR ''+'' then CHR ''-'' else if c = CHR ''/'' then CHR ''_'' else c) t)"

section \<open>Doubled slashes in a URL\<close>

text \<open>
  Whether a string holds two \<open>/\<close> next to each other. A generated URL is looked at
  from its eighth byte on, the second slash of \<open>https://\<close>: the scheme's own pair is
  not counted, a slash that follows it at once is.
\<close>

fun doubledSlash :: "string \<Rightarrow> bool" where
  "doubledSlash (a # b # s) = ((a = CHR ''/'' \<and> b = CHR ''/'') \<or> doubledSlash (b # s))"
| "doubledSlash _ = False"

section \<open>Concrete inputs\<close>

text \<open>
  The request and the configuration of the package's tests: a request for the
  videos of library 123 with a given raw query, and the minimal valid
  configuration extended by a CDN hostname and a CDN signing key.
\<close>

definition requestWithRawQuery :: "string \<Rightarrow> http_request" where
  "requestWithRawQuery raw =
     \<lparr> Method = ''GET'', URL_Path = ''/library/123/videos'', RawQuery = raw, Header = [],
       ReqBody = [] \<rparr>"

definition cdnConfig :: "string \<Rightarrow> string \<Rightarrow> Config" where
  "cdnConfig hostname tokenKey =
     \<lparr> APIKey = ''test-key'', LibraryID = ''123'', CDNHostname = hostname,
       EmbedTokenKey = [], CDNTokenKey = tokenKey, UserAgent = [], BaseURL = [],
       HTTPClient = None, MaxRetries = 0, Timeout = 0 \<rparr>"

definition cdnClient :: "string \<Rightarrow> string \<Rightarrow> Client" where
  "cdnClient hostname tokenKey =
     (let c' = init (cdnConfig hostname tokenKey) in
      \<lparr> config = c', httpClient = HTTPClient c', baseURL = BaseURL c',
        libraryID = LibraryID c', apiKey = APIKey c' \<rparr>)"

section \<open>Verified properties\<close>

subsection \<open>The model on the examples of the package\<close>

text \<open>
  The library functions on small inputs, the two documented examples of the query
  builder (\<^verbatim>\<open>ExampleQueryBuilder_basic\<close> with its expected output, and the chain of
  skipped values, which leaves the query empty), and the client that \<^verbatim>\<open>NewClient\<close>
  builds from the test configuration.
\<close>

lemma TrimSpace_examples:
  "TrimSpace [] = []"
  "TrimSpace ''   '' = []"
  "TrimSpace [CHR 0x09] = []"
  "TrimSpace [CHR 0x20, CHR 0xC2, CHR 0xA0, CHR 0xE2, CHR 0x80, CHR 0x83, CHR 0x0A] = []"
  "TrimSpace ''  en US  '' = ''en US''"
  "TrimSpace [CHR 0xE2, CHR 0x80, CHR 0x8B] = [CHR 0xE2, CHR 0x80, CHR 0x8B]"
  by code_simp+

lemma library_examples:
  "QueryEscape ''720p,1080p'' = ''720p%2C1080p''"
  "QueryUnescape ''x%20y+z%2c'' = Some ''x y z,''"
  "QueryUnescape ''100%'' = None"
  "ParseQuery ''b=2&a=1&a=3&&c;d=4&e&%zz=1'' = [(''b'', [''2'']), (''a'', [''1'', ''3'']), (''e'', [[]])]"
  "Values_Encode [(''b'', [''2'']), (''a'', [''1'', ''3'']), (''e'', [[]])] = ''a=1&a=3&b=2&e=''"
  "EncodeToString ''Man'' = ''TWFu''"
  "EncodeToString ''Ma'' = ''TWE=''"
  "EncodeToString ''M'' = ''TQ==''"
  "FormatInt (- 15) = ''-15''"
  "TrimRight ''vz-abc123.b-cdn.net//'' ''/'' = ''vz-abc123.b-cdn.net''"
  by code_simp+

lemma example_basic:
  "RawQuery (qb_req (apply_qb (chain
      [SetBool ''jitEnabled'' (Some True), SetString ''sourceLanguage'' ''en'',
       SetStrings ''enabledResolutions'' [''720p'', ''1080p'']]
      (buildQuery (requestWithRawQuery [])))))
   = ''enabledResolutions=720p%2C1080p&jitEnabled=true&sourceLanguage=en''"
  by code_simp

lemma example_nil_and_empty_values_are_skipped:
  "RawQuery (qb_req (apply_qb (chain
      [SetBool ''nilBool'' None, SetString ''emptyString'' [], SetString ''whitespace'' ''   '',
       SetStrings ''emptySlice'' []]
      (buildQuery (requestWithRawQuery [])))))
   = []"
  by code_simp

lemma cdnClient_NewClient:
  "NewClient (Some (cdnConfig hostname tokenKey)) = Inr (cdnClient hostname tokenKey)"
  by (simp add: NewClient_def validate_def cdnConfig_def cdnClient_def Let_def)

text \<open>
  The digest of \<open>abc\<close> (the first example of FIPS 180-4), and a token: the base64 of
  the SHA-256 digest of
  \<open>secret/video-abc/17000036001.2.3.4token_countries=US&token_countries_blocked=CN,RU\<close>,
  made URL-safe.
\<close>

lemma Sum256_abc:
  "Sum256 ''abc'' =
     [CHR 0xBA, CHR 0x78, CHR 0x16, CHR 0xBF, CHR 0x8F, CHR 0x01, CHR 0xCF, CHR 0xEA,
      CHR 0x41, CHR 0x41, CHR 0x40, CHR 0xDE, CHR 0x5D, CHR 0xAE, CHR 0x22, CHR 0x23,
      CHR 0xB0, CHR 0x03, CHR 0x61, CHR 0xA3, CHR 0x96, CHR 0x17, CHR 0x7A, CHR 0x9C,
      CHR 0xB4, CHR 0x10, CHR 0xFF, CHR 0x61, CHR 0xF2, CHR 0x00, CHR 0x15, CHR 0xAD]"
  by code_simp

lemma signCDNToken_example:
  "signCDNToken ''secret'' ''/video-abc/'' 1700003600
     (applyOptions [WithCountriesBlocked ''CN,RU'', WithUserIP ''1.2.3.4'',
                    WithCountriesAllowed ''US''])
   = Inr ''2HCA3VE6dBbWWNtTklR82QT4fO0m20Sb40TxDNCvv3s''"
  by code_simp

subsection \<open>Status classification\<close>

text \<open>
  Claim C2. For every status code and body the classification returns no error for
  200, 201, 202 and 204, the unauthorized sentinel for 401, the forbidden sentinel for
  403, the not-found sentinel for 404, the rate-limited sentinel for 429, the
  internal-server sentinel for 500, the service-unavailable sentinel for 503, and for
  400 and every other code a structured API error carrying that status code and the raw
  body. The function is total, and it returns no error for the four success
  codes only.
\<close>

theorem checkResponseError_classification:
  "(s \<in> {200, 201, 202, 204} \<longrightarrow> checkResponseError s b = None) \<and>
   (s = 401 \<longrightarrow> checkResponseError s b = Some ErrUnauthorized) \<and>
   (s = 403 \<longrightarrow> checkResponseError s b = Some ErrForbidden) \<and>
   (s = 404 \<longrightarrow> checkResponseError s b = Some ErrVideoNotFound) \<and>
   (s = 429 \<longrightarrow> checkResponseError s b = Some ErrRateLimited) \<and>
   (s = 500 \<longrightarrow> checkResponseError s b = Some ErrInternalServer) \<and>
   (s = 503 \<longrightarrow> checkResponseError s b = Some ErrServiceUnavailable) \<and>
   (s \<notin> {200, 201, 202, 204, 401, 403, 404, 429, 500, 503} \<longrightarrow>
      (\<exists>e. checkResponseError s b = Some (ErrAPI e) \<and> StatusCode e = s \<and> Body e = b)) \<and>
   (checkResponseError s b = None \<longleftrightarrow> s \<in> {200, 201, 202, 204})"
  by (simp add: checkResponseError_def newAPIError_def)

theorem checkResponseError_classification_witness:
  "checkResponseError 200 ''{}'' = None \<and>
   checkResponseError 204 [] = None \<and>
   checkResponseError 401 [] = Some ErrUnauthorized \<and>
   checkResponseError 403 [] = Some ErrForbidden \<and>
   checkResponseError 404 [] = Some ErrVideoNotFound \<and>
   checkResponseError 429 [] = Some ErrRateLimited \<and>
   checkResponseError 500 [] = Some ErrInternalServer \<and>
   checkResponseError 503 [] = Some ErrServiceUnavailable \<and>
   (\<exists>e. checkResponseError 400 ''invalid input'' = Some (ErrAPI e)
        \<and> StatusCode e = 400 \<and> Body e = ''invalid input'') \<and>
   (\<exists>e. checkResponseError 418 ''teapot'' = Some (ErrAPI e)
        \<and> StatusCode e = 418 \<and> Body e = ''teapot'')"
  using checkResponseError_classification [of 200 "''{}''"]
    checkResponseError_classification [of 204 "[]"]
    checkResponseError_classification [of 401 "[]"]
    checkResponseError_classification [of 403 "[]"]
    checkResponseError_classification [of 404 "[]"]
    checkResponseError_classification [of 429 "[]"]
    checkResponseError_classification [of 500 "[]"]
    checkResponseError_classification [of 503 "[]"]
    checkResponseError_classification [of 400 "''invalid input''"]
    checkResponseError_classification [of 418 "''teapot''"]
  by simp

subsection \<open>The message of an API error\<close>

text \<open>
  Claim C6, as stated: the message of a constructed API error never exceeds 200 bytes.
  It fails on a body of 201 bytes: \<^verbatim>\<open>parseErrorMessage\<close> appends an ellipsis of three
  bytes to the 200-byte prefix.
\<close>

theorem newAPIError_message_counterexample:
  "\<not> length (Message (newAPIError 400 (replicate 201 CHR ''x''))) \<le> 200 \<and>
   Message (newAPIError 400 (replicate 201 CHR ''x''))
     \<noteq> take 200 (replicate 201 CHR ''x'')"
  by (simp add: newAPIError_def parseErrorMessage_def)

text \<open>
  Claim C6, amended. The constructed API error carries the status code and the raw
  body; its message is the body itself when the body has at most 200 bytes, and
  otherwise the 200-byte prefix of the body followed by the three bytes \<open>...\<close>, so it
  is 203 bytes long then and never longer than 203 bytes.
\<close>

theorem newAPIError_message:
  "StatusCode (newAPIError s b) = s \<and> Body (newAPIError s b) = b \<and>
   Message (newAPIError s b) = (if length b \<le> 200 then b else take 200 b @ ''...'') \<and>
   length (Message (newAPIError s b)) \<le> 203 \<and>
   (200 < length b \<longrightarrow> length (Message (newAPIError s b)) = 203 \<and>
      take 200 (Message (newAPIError s b)) = take 200 b)"
  by (simp add: newAPIError_def parseErrorMessage_def)

theorem newAPIError_message_witness:
  "200 < length (replicate 201 CHR ''x'') \<and>
   length (Message (newAPIError 400 (replicate 201 CHR ''x''))) = 203 \<and>
   Message (newAPIError 400 ''invalid input'') = ''invalid input''"
  using newAPIError_message [of 400 "replicate 201 CHR ''x''"]
    newAPIError_message [of 400 "''invalid input''"]
  by simp

subsection \<open>Dispatch keeps the response when classification fails\<close>

text \<open>
  Claim C10. When the round trip and the body read succeed and the status code
  classifies as an error, \<^verbatim>\<open>doRequest\<close> returns the constructed response (status
  code, headers, fully read body) together with that error; when the round trip
  fails or the body cannot be read, it returns a nil response and only the error.
\<close>

theorem doRequest_response_kept:
  "(httpClient_Do req = Inr resp \<and> resp_Body resp = Inr body \<and>
      checkResponseError (resp_StatusCode resp) body = Some err \<longrightarrow>
      doRequest httpClient_Do req =
        (Some \<lparr> Response_StatusCode = resp_StatusCode resp,
                 Response_Headers = resp_Header resp,
                 Response_Body = body \<rparr>, Some err)) \<and>
   (httpClient_Do req = Inl e \<longrightarrow>
      doRequest httpClient_Do req = (None, Some (ErrPerformRequest e))) \<and>
   (httpClient_Do req = Inr resp \<and> resp_Body resp = Inl e \<longrightarrow>
      doRequest httpClient_Do req = (None, Some (ErrReadResponseBody e)))"
  by (simp add: doRequest_def newResponse_def)

theorem doRequest_response_kept_witness:
  "doRequest (\<lambda>_. Inr \<lparr> resp_StatusCode = 404, resp_Header = [(''Server'', [''bunny''])],
                        resp_Body = Inr ''gone'' \<rparr>)
     \<lparr> Method = ''GET'', URL_Path = ''/library/1/videos'', RawQuery = [], Header = [],
       ReqBody = [] \<rparr>
     = (Some \<lparr> Response_StatusCode = 404, Response_Headers = [(''Server'', [''bunny''])],
               Response_Body = ''gone'' \<rparr>, Some ErrVideoNotFound) \<and>
   doRequest (\<lambda>_. Inl ''connection refused'')
     \<lparr> Method = ''GET'', URL_Path = ''/library/1/videos'', RawQuery = [], Header = [],
       ReqBody = [] \<rparr>
     = (None, Some (ErrPerformRequest ''connection refused'')) \<and>
   doRequest (\<lambda>_. Inr \<lparr> resp_StatusCode = 200, resp_Header = [],
                        resp_Body = Inl ''unexpected EOF'' \<rparr>)
     \<lparr> Method = ''GET'', URL_Path = ''/library/1/videos'', RawQuery = [], Header = [],
       ReqBody = [] \<rparr>
     = (None, Some (ErrReadResponseBody ''unexpected EOF''))"
  using doRequest_response_kept
      [of "\<lambda>_. Inr \<lparr> resp_StatusCode = 404, resp_Header = [(''Server'', [''bunny''])],
                        resp_Body = Inr ''gone'' \<rparr>"
          "\<lparr> Method = ''GET'', URL_Path = ''/library/1/videos'', RawQuery = [], Header = [],
             ReqBody = [] \<rparr>"
          "\<lparr> resp_StatusCode = 404, resp_Header = [(''Server'', [''bunny''])],
             resp_Body = Inr ''gone'' \<rparr>"
          "''gone''" ErrVideoNotFound]
    doRequest_response_kept
      [of "\<lambda>_. Inl ''connection refused''"
          "\<lparr> Method = ''GET'', URL_Path = ''/library/1/videos'', RawQuery = [], Header = [],
             ReqBody = [] \<rparr>"
          _ _ _ "''connection refused''"]
    doRequest_response_kept
      [of "\<lambda>_. Inr \<lparr> resp_StatusCode = 200, resp_Header = [],
                        resp_Body = Inl ''unexpected EOF'' \<rparr>"
          "\<lparr> Method = ''GET'', URL_Path = ''/library/1/videos'', RawQuery = [], Header = [],
             ReqBody = [] \<rparr>"
          "\<lparr> resp_StatusCode = 200, resp_Header = [], resp_Body = Inl ''unexpected EOF'' \<rparr>"
          _ _ "''unexpected EOF''"]
  by (simp add: checkResponseError_def)

subsection \<open>Configuration after validation and defaulting\<close>

text \<open>
  Claim C5, as stated: after validation and defaulting every optional field is
  non-empty. It fails for a configuration that gives only the two required fields:
  \<^verbatim>\<open>init\<close> has no default for the CDN hostname and the two signing keys.
\<close>

theorem init_optional_fields_counterexample:
  "validate \<lparr> APIKey = ''test-key'', LibraryID = ''123'', CDNHostname = [],
              EmbedTokenKey = [], CDNTokenKey = [], UserAgent = [], BaseURL = [],
              HTTPClient = None, MaxRetries = 0, Timeout = 0 \<rparr> = None \<and>
   CDNHostname (init \<lparr> APIKey = ''test-key'', LibraryID = ''123'', CDNHostname = [],
              EmbedTokenKey = [], CDNTokenKey = [], UserAgent = [], BaseURL = [],
              HTTPClient = None, MaxRetries = 0, Timeout = 0 \<rparr>) = [] \<and>
   EmbedTokenKey (init \<lparr> APIKey = ''test-key'', LibraryID = ''123'', CDNHostname = [],
              EmbedTokenKey = [], CDNTokenKey = [], UserAgent = [], BaseURL = [],
              HTTPClient = None, MaxRetries = 0, Timeout = 0 \<rparr>) = [] \<and>
   CDNTokenKey (init \<lparr> APIKey = ''test-key'', LibraryID = ''123'', CDNHostname = [],
              EmbedTokenKey = [], CDNTokenKey = [], UserAgent = [], BaseURL = [],
              HTTPClient = None, MaxRetries = 0, Timeout = 0 \<rparr>) = []"
  by (simp add: validate_def init_def Let_def)

text \<open>
  Claim C5, amended. For every configuration that passes validation, after
  defaulting the two required fields are non-empty, the user agent and the base URL
  are non-empty, the retry count and the timeout are at least 1, and the HTTP client
  is present; the CDN hostname and the two signing keys are left exactly as supplied
  (they have no default and may stay empty).
\<close>

theorem init_defaults_after_validate:
  assumes "validate c = None"
  shows "APIKey (init c) \<noteq> [] \<and> LibraryID (init c) \<noteq> [] \<and>
         UserAgent (init c) \<noteq> [] \<and> BaseURL (init c) \<noteq> [] \<and>
         1 \<le> MaxRetries (init c) \<and> 1 \<le> Timeout (init c) \<and>
         HTTPClient (init c) \<noteq> None \<and>
         CDNHostname (init c) = CDNHostname c \<and>
         EmbedTokenKey (init c) = EmbedTokenKey c \<and>
         CDNTokenKey (init c) = CDNTokenKey c"
  using assms
  by (simp add: validate_def init_def Let_def DefaultUserAgent_def DefaultBaseURL_def
      DefaultMaxRetries_def DefaultTimeout_def split: if_splits)

theorem init_defaults_after_validate_witness:
  "validate \<lparr> APIKey = ''test-key'', LibraryID = ''123'', CDNHostname = [],
              EmbedTokenKey = [], CDNTokenKey = [], UserAgent = [], BaseURL = [],
              HTTPClient = None, MaxRetries = 0, Timeout = 0 \<rparr> = None \<and>
   UserAgent (init \<lparr> APIKey = ''test-key'', LibraryID = ''123'', CDNHostname = [],
              EmbedTokenKey = [], CDNTokenKey = [], UserAgent = [], BaseURL = [],
              HTTPClient = None, MaxRetries = 0, Timeout = 0 \<rparr>) \<noteq> [] \<and>
   1 \<le> MaxRetries (init \<lparr> APIKey = ''test-key'', LibraryID = ''123'', CDNHostname = [],
              EmbedTokenKey = [], CDNTokenKey = [], UserAgent = [], BaseURL = [],
              HTTPClient = None, MaxRetries = 0, Timeout = 0 \<rparr>) \<and>
   HTTPClient (init \<lparr> APIKey = ''test-key'', LibraryID = ''123'', CDNHostname = [],
              EmbedTokenKey = [], CDNTokenKey = [], UserAgent = [], BaseURL = [],
              HTTPClient = None, MaxRetries = 0, Timeout = 0 \<rparr>) \<noteq> None"
proof -
  have v: "validate \<lparr> APIKey = ''test-key'', LibraryID = ''123'', CDNHostname = [],
              EmbedTokenKey = [], CDNTokenKey = [], UserAgent = [], BaseURL = [],
              HTTPClient = None, MaxRetries = 0, Timeout = 0 \<rparr> = None"
    by (simp add: validate_def)
  from init_defaults_after_validate [OF v] v show ?thesis by simp
qed


subsection \<open>Setters leave the request alone\<close>

lemma call_req: "qb_req (call s q) = qb_req q"
  by (cases s) (simp_all add: setBool_def setString_def setStrings_def split: option.splits)

lemma chain_req: "qb_req (chain cs q) = qb_req q"
  unfolding chain_def by (induction cs arbitrary: q) (simp_all add: call_req)

text \<open>
  Claim C3. For every request and every finite chain of \<^verbatim>\<open>setBool\<close>, \<^verbatim>\<open>setString\<close>
  and \<^verbatim>\<open>setStrings\<close> calls on a builder made by \<^verbatim>\<open>buildQuery\<close> over that request, the
  request, and so its raw query, is what it was when the builder was made; no single
  setter call changes the request of any builder. Only \<^verbatim>\<open>apply\<close> writes the raw
  query.
\<close>

theorem setters_do_not_touch_request:
  "qb_req (buildQuery r) = r \<and>
   qb_req (chain cs (buildQuery r)) = r \<and>
   RawQuery (qb_req (chain cs (buildQuery r))) = RawQuery r \<and>
   qb_req (setBool key b q) = qb_req q \<and>
   qb_req (setString key v q) = qb_req q \<and>
   qb_req (setStrings key vs q) = qb_req q \<and>
   RawQuery (qb_req (apply_qb q)) = Values_Encode (qb_values q)"
  using call_req [of "SetBool key b" q] call_req [of "SetString key v" q]
    call_req [of "SetStrings key vs" q]
  by (simp add: chain_req) (simp add: buildQuery_def apply_qb_def)

subsection \<open>Playlist URL and trailing slashes\<close>

lemma TrimRight_decompose: "\<exists>n. s = TrimRight s [c] @ replicate n c"
proof -
  let ?t = "takeWhile (\<lambda>x. x = c) (rev s)"
  let ?d = "dropWhile (\<lambda>x. x = c) (rev s)"
  have "?t = replicate (length ?t) c"
    by (metis (mono_tags, lifting) replicate_length_same set_takeWhileD)
  moreover have "rev s = ?t @ ?d" by simp
  ultimately have "rev s = replicate (length ?t) c @ ?d" by simp
  then have "s = rev ?d @ replicate (length ?t) c"
    by (metis rev_append rev_replicate rev_rev_ident)
  then show ?thesis by (auto simp: TrimRight_def)
qed

lemma TrimRight_not_suffix: "\<not> suffix [c] (TrimRight s [c])"
proof
  assume "suffix [c] (TrimRight s [c])"
  then obtain p where "rev (dropWhile (\<lambda>x. x = c) (rev s)) = p @ [c]"
    by (auto simp: suffix_def TrimRight_def)
  then have "rev (rev (dropWhile (\<lambda>x. x = c) (rev s))) = rev (p @ [c])"
    by (rule arg_cong)
  then have d: "dropWhile (\<lambda>x. x = c) (rev s) = c # rev p"
    by simp
  then have "dropWhile (\<lambda>x. x = c) (rev s) \<noteq> []"
    by simp
  then have "\<not> (hd (dropWhile (\<lambda>x. x = c) (rev s)) = c)"
    by (rule hd_dropWhile)
  with d show False
    by simp
qed

lemma doubledSlash_Cons:
  "doubledSlash (a # s) \<longleftrightarrow> (a = CHR ''/'' \<and> s \<noteq> [] \<and> hd s = CHR ''/'') \<or> doubledSlash s"
  by (cases s) auto

lemma doubledSlash_clean_prefix:
  "CHR ''/'' \<notin> set xs \<Longrightarrow> doubledSlash (xs @ ys) = doubledSlash ys"
proof (induction xs)
  case Nil
  then show ?case by simp
next
  case (Cons a xs)
  then have "a \<noteq> CHR ''/''" and "doubledSlash (xs @ ys) = doubledSlash ys"
    by auto
  then show ?case
    by (simp add: doubledSlash_Cons [of a])
qed

lemma TrimRight_nonempty: "\<exists>x\<in>set s. x \<noteq> c \<Longrightarrow> TrimRight s [c] \<noteq> []"
  by (simp add: TrimRight_def dropWhile_eq_Nil_conv)

lemma TrimRight_last: "TrimRight s [c] \<noteq> [] \<Longrightarrow> last (TrimRight s [c]) \<noteq> c"
proof
  assume ne: "TrimRight s [c] \<noteq> []" and l: "last (TrimRight s [c]) = c"
  from ne have "TrimRight s [c] = butlast (TrimRight s [c]) @ [last (TrimRight s [c])]"
    by simp
  with l have "suffix [c] (TrimRight s [c])"
    unfolding suffix_def by metis
  with TrimRight_not_suffix show False by blast
qed

lemma TrimSpace_Nil: "TrimSpace [] = []"
  by code_simp

lemma url_tail_clean:
  assumes "h \<noteq> []" and "CHR ''/'' \<notin> set h" and "v \<noteq> []" and "CHR ''/'' \<notin> set v"
  shows "\<not> doubledSlash (drop 7 (''https://'' @ h @ ''/'' @ v @ ''/playlist.m3u8''))"
proof -
  from assms have hh: "hd (h @ ''/'' @ v @ ''/playlist.m3u8'') \<noteq> CHR ''/''"
    by (cases h) auto
  from assms have hv: "hd (v @ ''/playlist.m3u8'') \<noteq> CHR ''/''"
    by (cases v) auto
  have t: "\<not> doubledSlash ''/playlist.m3u8''"
    by simp
  have "doubledSlash (CHR ''/'' # h @ ''/'' @ v @ ''/playlist.m3u8'')
          = doubledSlash (h @ ''/'' @ v @ ''/playlist.m3u8'')"
    using hh by (simp add: doubledSlash_Cons [of "CHR ''/''"])
  also have "\<dots> = doubledSlash (CHR ''/'' # v @ ''/playlist.m3u8'')"
    using assms(2) by (simp add: doubledSlash_clean_prefix)
  also have "\<dots> = doubledSlash (v @ ''/playlist.m3u8'')"
    using hv by (simp add: doubledSlash_Cons [of "CHR ''/''"])
  also have "\<dots> = doubledSlash ''/playlist.m3u8''"
    using assms(4) by (rule doubledSlash_clean_prefix)
  finally show ?thesis using t by simp
qed

text \<open>
  Claim C9, as stated: for every configured CDN hostname a trailing slash never
  produces a doubled \<open>/\<close> in the generated URL. It fails for a hostname made of
  slashes only. The guard of \<^verbatim>\<open>cdnBase\<close> looks at the hostname before it is stripped,
  so \<open>/\<close> counts as configured; the stripped hostname is empty, and the separator
  follows the \<open>//\<close> of the scheme. The URL holds \<open>//video-abc\<close>, which is what the
  package's test of trailing slashes looks for.
\<close>

theorem HLSPlaylistURL_all_slash_hostname_counterexample:
  "CDNHostname (config (cdnClient ''/'' [])) \<noteq> [] \<and>
   TrimSpace ''video-abc'' \<noteq> [] \<and>
   HLSPlaylistURL (cdnClient ''/'' []) ''video-abc'' = Inr ''https:///video-abc/playlist.m3u8'' \<and>
   doubledSlash (drop 7 ''https:///video-abc/playlist.m3u8'') \<and>
   sublist ''//video-abc'' ''https:///video-abc/playlist.m3u8''"
proof -
  have "sublist ''//video-abc'' (''https:/'' @ ''//video-abc'' @ ''/playlist.m3u8'')"
    unfolding sublist_def by blast
  moreover have "CDNHostname (config (cdnClient ''/'' [])) \<noteq> [] \<and>
   TrimSpace ''video-abc'' \<noteq> [] \<and>
   HLSPlaylistURL (cdnClient ''/'' []) ''video-abc'' = Inr ''https:///video-abc/playlist.m3u8'' \<and>
   doubledSlash (drop 7 ''https:///video-abc/playlist.m3u8'')"
    by code_simp
  ultimately show ?thesis by simp
qed

text \<open>
  Claim C9, amended. For every client with a configured (non-empty) CDN hostname and
  every non-blank video ID, \<^verbatim>\<open>HLSPlaylistURL\<close> returns exactly \<open>https://\<close>, the hostname
  with its trailing slashes stripped, \<open>/\<close>, the video ID and \<open>/playlist.m3u8\<close>; the
  stripped hostname is the configured one without its final run of \<open>/\<close>. Provided
  the hostname holds a character other than \<open>/\<close>, the \<open>/\<close> before the video ID is
  not preceded by another \<open>/\<close> in the URL, however many trailing slashes were
  configured; and when, besides, the stripped hostname and the video ID hold no \<open>/\<close>
  of their own, the URL has no doubled \<open>/\<close> after the scheme's.
\<close>

theorem HLSPlaylistURL_exact:
  assumes "CDNHostname (config c) \<noteq> []" and "TrimSpace videoID \<noteq> []"
  shows "\<exists>url.
           HLSPlaylistURL c videoID = Inr url \<and>
           url = ''https://'' @ TrimRight (CDNHostname (config c)) ''/'' @ ''/'' @ videoID
                   @ ''/playlist.m3u8'' \<and>
           (\<exists>n. CDNHostname (config c)
                  = TrimRight (CDNHostname (config c)) ''/'' @ replicate n CHR ''/'') \<and>
           ((\<exists>x\<in>set (CDNHostname (config c)). x \<noteq> CHR ''/'') \<longrightarrow>
              (\<exists>p b. url = p @ [b] @ ''/'' @ videoID @ ''/playlist.m3u8'' \<and> b \<noteq> CHR ''/'')) \<and>
           ((\<exists>x\<in>set (CDNHostname (config c)). x \<noteq> CHR ''/'') \<and>
              CHR ''/'' \<notin> set (TrimRight (CDNHostname (config c)) ''/'') \<and>
              CHR ''/'' \<notin> set videoID \<longrightarrow>
              \<not> doubledSlash (drop 7 url))"
proof -
  define h where "h = TrimRight (CDNHostname (config c)) ''/''"
  define tail where "tail = ''/'' @ videoID @ ''/playlist.m3u8''"
  define url where "url = ''https://'' @ h @ tail"
  have u: "HLSPlaylistURL c videoID = Inr url"
    using assms by (simp add: HLSPlaylistURL_def cdnBase_def Let_def url_def h_def tail_def)
  have e: "url = ''https://'' @ TrimRight (CDNHostname (config c)) ''/'' @ ''/'' @ videoID
                   @ ''/playlist.m3u8''"
    by (simp add: url_def h_def tail_def)
  have d: "\<exists>n. CDNHostname (config c)
                  = TrimRight (CDNHostname (config c)) ''/'' @ replicate n CHR ''/''"
    by (rule TrimRight_decompose)
  have v: "videoID \<noteq> []"
  proof
    assume "videoID = []"
    with assms(2) TrimSpace_Nil show False by simp
  qed
  have j: "\<exists>p b. url = p @ [b] @ ''/'' @ videoID @ ''/playlist.m3u8'' \<and> b \<noteq> CHR ''/''"
    if x: "\<exists>x\<in>set (CDNHostname (config c)). x \<noteq> CHR ''/''"
  proof -
    from x have ne: "h \<noteq> []"
      unfolding h_def by (rule TrimRight_nonempty)
    then have l: "last h \<noteq> CHR ''/''"
      unfolding h_def by (rule TrimRight_last)
    from ne have "h = butlast h @ [last h]"
      by simp
    then have "url = ''https://'' @ (butlast h @ [last h]) @ tail"
      unfolding url_def by (rule arg_cong [where f = "\<lambda>z. ''https://'' @ z @ tail"])
    then have "url = (''https://'' @ butlast h) @ [last h] @ ''/'' @ videoID @ ''/playlist.m3u8''"
      by (simp add: tail_def)
    with l show ?thesis
      by (intro exI [of _ "''https://'' @ butlast h"] exI [of _ "last h"] conjI)
  qed
  have k: "\<not> doubledSlash (drop 7 url)"
    if x: "(\<exists>x\<in>set (CDNHostname (config c)). x \<noteq> CHR ''/'') \<and>
              CHR ''/'' \<notin> set (TrimRight (CDNHostname (config c)) ''/'') \<and>
              CHR ''/'' \<notin> set videoID"
  proof -
    from x have ne: "h \<noteq> []"
      unfolding h_def by (intro TrimRight_nonempty) (rule conjunct1)
    from x have c1: "CHR ''/'' \<notin> set h" and c2: "CHR ''/'' \<notin> set videoID"
      unfolding h_def by (rule conjunct2 [THEN conjunct1], rule conjunct2 [THEN conjunct2])
    from url_tail_clean [OF ne c1 v c2] show ?thesis
      unfolding url_def tail_def .
  qed
  show ?thesis
  proof (rule exI [of _ url], intro conjI impI)
    show "HLSPlaylistURL c videoID = Inr url" by (rule u)
    show "url = ''https://'' @ TrimRight (CDNHostname (config c)) ''/'' @ ''/'' @ videoID
                   @ ''/playlist.m3u8''" by (rule e)
    show "\<exists>n. CDNHostname (config c)
                  = TrimRight (CDNHostname (config c)) ''/'' @ replicate n CHR ''/''" by (rule d)
    show "\<exists>p b. url = p @ [b] @ ''/'' @ videoID @ ''/playlist.m3u8'' \<and> b \<noteq> CHR ''/''"
      if "\<exists>x\<in>set (CDNHostname (config c)). x \<noteq> CHR ''/''"
      using that by (rule j)
    show "\<not> doubledSlash (drop 7 url)"
      if "(\<exists>x\<in>set (CDNHostname (config c)). x \<noteq> CHR ''/'') \<and>
              CHR ''/'' \<notin> set (TrimRight (CDNHostname (config c)) ''/'') \<and>
              CHR ''/'' \<notin> set videoID"
      using that by (rule k)
  qed
qed

theorem HLSPlaylistURL_exact_witness:
  "CDNHostname (config (cdnClient ''vz-abc123.b-cdn.net//'' [])) \<noteq> [] \<and>
   TrimSpace ''video-abc'' \<noteq> [] \<and>
   CHR ''v'' \<in> set (CDNHostname (config (cdnClient ''vz-abc123.b-cdn.net//'' []))) \<and>
   CHR ''/'' \<notin> set (TrimRight (CDNHostname (config (cdnClient ''vz-abc123.b-cdn.net//'' []))) ''/'') \<and>
   CHR ''/'' \<notin> set ''video-abc'' \<and>
   HLSPlaylistURL (cdnClient ''vz-abc123.b-cdn.net//'' []) ''video-abc''
     = Inr ''https://vz-abc123.b-cdn.net/video-abc/playlist.m3u8'' \<and>
   \<not> doubledSlash (drop 7 ''https://vz-abc123.b-cdn.net/video-abc/playlist.m3u8'')"
proof -
  let ?c = "cdnClient ''vz-abc123.b-cdn.net//'' []"
  have h: "CDNHostname (config ?c) \<noteq> []"
    by (simp add: cdnClient_def cdnConfig_def init_def Let_def)
  have v: "TrimSpace ''video-abc'' \<noteq> []"
    by code_simp
  have m: "CHR ''v'' \<in> set (CDNHostname (config ?c))"
    by (simp add: cdnClient_def cdnConfig_def init_def Let_def)
  then have x: "\<exists>x\<in>set (CDNHostname (config ?c)). x \<noteq> CHR ''/''"
    by (rule bexI [rotated]) simp
  have t: "TrimRight (CDNHostname (config ?c)) ''/'' = ''vz-abc123.b-cdn.net''"
    by (simp add: cdnClient_def cdnConfig_def init_def Let_def TrimRight_def)
  have s1: "CHR ''/'' \<notin> set (TrimRight (CDNHostname (config ?c)) ''/'')"
    by (simp add: t)
  have s2: "CHR ''/'' \<notin> set ''video-abc''"
    by simp
  from HLSPlaylistURL_exact [OF h v] obtain url where
    a: "HLSPlaylistURL ?c ''video-abc'' = Inr url" and
    b: "url = ''https://'' @ TrimRight (CDNHostname (config ?c)) ''/'' @ ''/'' @ ''video-abc''
                @ ''/playlist.m3u8''" and
    k: "(\<exists>x\<in>set (CDNHostname (config ?c)). x \<noteq> CHR ''/'') \<and>
          CHR ''/'' \<notin> set (TrimRight (CDNHostname (config ?c)) ''/'') \<and>
          CHR ''/'' \<notin> set ''video-abc'' \<longrightarrow> \<not> doubledSlash (drop 7 url)"
    by (elim exE conjE)
  from b have b': "url = ''https://vz-abc123.b-cdn.net/video-abc/playlist.m3u8''"
    by (simp add: t)
  from k x s1 s2 have n: "\<not> doubledSlash (drop 7 url)"
    by (intro mp [OF k] conjI)
  from a have a': "HLSPlaylistURL ?c ''video-abc''
               = Inr ''https://vz-abc123.b-cdn.net/video-abc/playlist.m3u8''"
    unfolding b' .
  from n have n': "\<not> doubledSlash (drop 7 ''https://vz-abc123.b-cdn.net/video-abc/playlist.m3u8'')"
    unfolding b' .
  from h v m s1 s2 a' n' show ?thesis
    by (intro conjI)
qed

subsection \<open>Signed HLS URL\<close>

lemma signCDNToken_total: "\<exists>token. signCDNToken key path expiry opts = Inr token"
  by (simp add: signCDNToken_def Let_def)

lemma ReplaceAll_removes: "old \<notin> set new \<Longrightarrow> old \<notin> set (ReplaceAll s old new)"
  by (induction s) (auto simp: ReplaceAll_def)

lemma ReplaceAll_keeps_out:
  "c \<notin> set s \<Longrightarrow> c \<notin> set new \<Longrightarrow> c \<notin> set (ReplaceAll s old new)"
  by (induction s) (auto simp: ReplaceAll_def)

lemma signCDNToken_charset:
  assumes "signCDNToken key path expiry opts = Inr token"
  shows "CHR ''+'' \<notin> set token" and "CHR ''/'' \<notin> set token"
    and "CHR ''='' \<notin> set token" and "CHR 0x0A \<notin> set token"
  using assms
  by (auto simp: signCDNToken_def Let_def ReplaceAll_removes ReplaceAll_keeps_out)

text \<open>
  Claim C4. For every client whose CDN hostname and CDN token key are configured and
  every non-blank video ID, \<^verbatim>\<open>SignedHLSURL\<close> signs the directory path \<open>/{videoID}/\<close>
  with the CDN signer (key: the configured CDN token key; expiry: the Unix time of
  now plus the time to live; options: the functional options applied in order) and
  returns exactly
  \<open>https://{host}/bcdn_token={token}&expires={expiry}&token_path={escaped}/{videoID}/playlist.m3u8\<close>,
  with the hostname stripped of trailing slashes and the directory path
  query-escaped. The result ends with \<open>/playlist.m3u8\<close> and contains
  \<open>token_path=\<close>.
\<close>

theorem SignedHLSURL_exact:
  assumes "TrimSpace videoID \<noteq> []"
    and "CDNHostname (config c) \<noteq> []"
    and "CDNTokenKey (config c) \<noteq> []"
  shows "\<exists>token url.
           signCDNToken (CDNTokenKey (config c)) (''/'' @ videoID @ ''/'')
               (unixAfter now ttl) (applyOptions opts) = Inr token \<and>
           SignedHLSURL c now videoID ttl opts = Inr url \<and>
           url = ''https://'' @ TrimRight (CDNHostname (config c)) ''/'' @ ''/bcdn_token=''
                   @ token @ ''&expires='' @ FormatInt (unixAfter now ttl) @ ''&token_path=''
                   @ QueryEscape (''/'' @ videoID @ ''/'') @ ''/'' @ videoID
                   @ ''/playlist.m3u8'' \<and>
           suffix ''/playlist.m3u8'' url \<and> sublist ''token_path='' url"
proof -
  obtain token where t:
    "signCDNToken (CDNTokenKey (config c)) (''/'' @ videoID @ ''/'')
       (unixAfter now ttl) (applyOptions opts) = Inr token"
    using signCDNToken_total by blast
  let ?pre = "''https://'' @ TrimRight (CDNHostname (config c)) ''/'' @ ''/bcdn_token=''
                @ token @ ''&expires='' @ FormatInt (unixAfter now ttl) @ ''&''"
  let ?dir = "QueryEscape (''/'' @ videoID @ ''/'')"
  let ?url = "?pre @ ''token_path='' @ ?dir @ ''/'' @ videoID @ ''/playlist.m3u8''"
  have u: "SignedHLSURL c now videoID ttl opts = Inr ?url"
    using assms t by (simp add: SignedHLSURL_def Let_def)
  have s1: "suffix ''/playlist.m3u8'' ?url"
    unfolding suffix_def
    by (rule exI [of _ "?pre @ ''token_path='' @ ?dir @ ''/'' @ videoID"]) simp
  have s2: "sublist ''token_path='' ?url"
    unfolding sublist_def by blast
  from t u s1 s2 show ?thesis
    by (intro exI [of _ token] exI [of _ ?url]) simp
qed

theorem SignedHLSURL_exact_witness:
  "TrimSpace ''video-abc'' \<noteq> [] \<and>
   CDNHostname (config (cdnClient ''vz-abc123.b-cdn.net/'' ''secret'')) \<noteq> [] \<and>
   CDNTokenKey (config (cdnClient ''vz-abc123.b-cdn.net/'' ''secret'')) \<noteq> [] \<and>
   SignedHLSURL (cdnClient ''vz-abc123.b-cdn.net/'' ''secret'') 1700000000500000000
       ''video-abc'' 3600000000000
       [WithCountriesBlocked ''CN,RU'', WithUserIP ''1.2.3.4'', WithCountriesAllowed ''US'']
     = Inr (''https://vz-abc123.b-cdn.net/bcdn_token=2HCA3VE6dBbWWNtTklR82QT4fO0m20Sb40TxDNCvv3s''
            @ ''&expires=1700003600&token_path=%2Fvideo-abc%2F/video-abc/playlist.m3u8'')"
proof -
  let ?c = "cdnClient ''vz-abc123.b-cdn.net/'' ''secret''"
  let ?opts = "[WithCountriesBlocked ''CN,RU'', WithUserIP ''1.2.3.4'',
                WithCountriesAllowed ''US'']"
  have v: "TrimSpace ''video-abc'' \<noteq> []"
    by code_simp
  have h: "CDNHostname (config ?c) \<noteq> []"
    by (simp add: cdnClient_def cdnConfig_def init_def Let_def)
  have k: "CDNTokenKey (config ?c) \<noteq> []"
    by (simp add: cdnClient_def cdnConfig_def init_def Let_def)
  have k': "CDNTokenKey (config ?c) = ''secret''"
    by (simp add: cdnClient_def cdnConfig_def init_def Let_def)
  have t: "TrimRight (CDNHostname (config ?c)) ''/'' = ''vz-abc123.b-cdn.net''"
    by (simp add: cdnClient_def cdnConfig_def init_def Let_def TrimRight_def)
  have e: "unixAfter 1700000000500000000 3600000000000 = 1700003600"
    by (simp add: unixAfter_def)
  have f: "FormatInt 1700003600 = ''1700003600''"
    by code_simp
  have q: "QueryEscape ''/video-abc/'' = ''%2Fvideo-abc%2F''"
    by code_simp
  from SignedHLSURL_exact [OF v h k, of 1700000000500000000 3600000000000 ?opts]
  have "SignedHLSURL ?c 1700000000500000000 ''video-abc'' 3600000000000 ?opts
     = Inr (''https://vz-abc123.b-cdn.net/bcdn_token=2HCA3VE6dBbWWNtTklR82QT4fO0m20Sb40TxDNCvv3s''
            @ ''&expires=1700003600&token_path=%2Fvideo-abc%2F/video-abc/playlist.m3u8'')"
    by (auto simp: k' t e f q signCDNToken_example)
  with v h k show ?thesis by blast
qed

subsection \<open>The signer computes what the specification describes\<close>

text \<open>
  The keys of a Go map come in any order; sorting gives the same list whatever the
  order was.
\<close>

lemma sort_keys_any_order:
  fixes ks :: "string list"
  assumes "distinct ks" and "distinct ks'" and "set ks' = set ks"
  shows "sort ks' = sort ks"
  using assms by (intro sorted_distinct_set_unique) simp_all

lemma ReplaceAll_url_safe:
  "ReplaceAll (ReplaceAll (ReplaceAll (ReplaceAll t (CHR 0x0A) []) CHR ''+'' ''-'')
       CHR ''/'' ''_'') CHR ''='' []
     = spec_url_safe t"
  by (induction t) (simp_all add: ReplaceAll_def spec_url_safe_def)

text \<open>
  Claim C1. For every key, path, expiry and restriction options, \<^verbatim>\<open>signCDNToken\<close>
  returns (with a nil error) the URL-safe transform of the standard base64 encoding
  of the SHA-256 digest of the hashable string of the specification: key, path,
  decimal expiry, then the user IP if non-empty, then the extra-parameter string if
  non-empty, the latter joining \<open>token_countries=...\<close> and
  \<open>token_countries_blocked=...\<close> (each only for a non-empty value) with \<open>&\<close> in
  ascending key order, values not escaped.
\<close>

theorem signCDNToken_refines_spec:
  "signCDNToken key path expiry opts =
     Inr (spec_url_safe (EncodeToString (Sum256 (spec_hashable key path expiry opts))))"
proof -
  have "signCDNToken key path expiry opts =
     Inr (ReplaceAll (ReplaceAll (ReplaceAll (ReplaceAll
       (EncodeToString (Sum256 (spec_hashable key path expiry opts)))
         (CHR 0x0A) []) CHR ''+'' ''-'') CHR ''/'' ''_'') CHR ''='' [])"
    by (simp add: signCDNToken_def spec_hashable_def spec_extra_params_def Let_def
        Values_Set_def Values_Get_def Values_index_def)
  then show ?thesis
    by (simp only: ReplaceAll_url_safe)
qed

theorem signCDNToken_refines_spec_witness:
  "signCDNToken ''secret'' ''/video-abc/'' 1700003600
     (applyOptions [WithCountriesBlocked ''CN,RU'', WithUserIP ''1.2.3.4'',
                    WithCountriesAllowed ''US''])
   = Inr (spec_url_safe (EncodeToString (Sum256
       ''secret/video-abc/17000036001.2.3.4token_countries=US&token_countries_blocked=CN,RU'')))"
proof -
  have "spec_hashable ''secret'' ''/video-abc/'' 1700003600
     (applyOptions [WithCountriesBlocked ''CN,RU'', WithUserIP ''1.2.3.4'',
                    WithCountriesAllowed ''US''])
     = ''secret/video-abc/17000036001.2.3.4token_countries=US&token_countries_blocked=CN,RU''"
    by code_simp
  with signCDNToken_refines_spec [of "''secret''" "''/video-abc/''" 1700003600
      "applyOptions [WithCountriesBlocked ''CN,RU'', WithUserIP ''1.2.3.4'',
                    WithCountriesAllowed ''US'']"]
  show ?thesis by simp
qed


subsection \<open>Escaping, parsing and encoding a query\<close>

text \<open>
  Unescaping undoes escaping, an escaped string holds none of the separators
  \<open>&\<close>, \<open>=\<close> and \<open>;\<close>, and so parsing an encoded parameter set gives every key the
  values it had.
\<close>

lemma lt16_cases:
  "d < (16::nat) \<Longrightarrow> d \<in> {0, 1, 2, 3, 4, 5, 6, 7, 8, 9, 10, 11, 12, 13, 14, 15}"
  by simp arith

lemma upperhex_props:
  assumes "d < 16"
  shows "ishex (upperhex d)" and "unhex (upperhex d) = d"
    and "upperhex d \<noteq> CHR ''&''" and "upperhex d \<noteq> CHR ''=''" and "upperhex d \<noteq> CHR '';''"
  using lt16_cases [OF assms]
  by (auto simp: upperhex_def ishex_def unhex_def less_eq_char_def)

lemma of_char_nibbles:
  "of_char c div 16 < (16::nat)" "of_char c mod 16 < (16::nat)"
  "(of_char c div 16) * 16 + of_char c mod 16 = (of_char c :: nat)"
proof -
  have "of_char c < (256::nat)" by simp
  then show "of_char c div 16 < (16::nat)" by arith
qed simp_all

lemma shouldEscape_special:
  "shouldEscape CHR ''%''" "shouldEscape CHR ''+''" "shouldEscape CHR '' ''"
  "shouldEscape CHR ''&''" "shouldEscape CHR ''=''" "shouldEscape CHR '';''"
  by (simp_all add: shouldEscape_def isAlnum_def less_eq_char_def)

lemma QueryUnescape_escapeByte:
  "QueryUnescape (escapeByte c @ rest) = map_option ((#) c) (QueryUnescape rest)"
proof (cases "shouldEscape c")
  case False
  then have "c \<noteq> CHR ''%''" "c \<noteq> CHR ''+''" using shouldEscape_special by auto
  with False show ?thesis by (simp add: escapeByte_def)
next
  case True
  show ?thesis
  proof (cases "c = CHR '' ''")
    case True
    then show ?thesis by (simp add: escapeByte_def shouldEscape_special)
  next
    case False
    with True show ?thesis
      by (simp add: escapeByte_def upperhex_props of_char_nibbles)
  qed
qed

lemma QueryUnescape_QueryEscape: "QueryUnescape (QueryEscape s) = Some s"
  by (induction s) (simp_all add: QueryEscape_def QueryUnescape_escapeByte)

lemma escapeByte_clean:
  "CHR ''&'' \<notin> set (escapeByte c)" "CHR ''='' \<notin> set (escapeByte c)"
  "CHR '';'' \<notin> set (escapeByte c)"
  using shouldEscape_special upperhex_props(3-5) [OF of_char_nibbles(1), of c]
    upperhex_props(3-5) [OF of_char_nibbles(2), of c]
  by (auto simp: escapeByte_def)

lemma QueryEscape_clean:
  "CHR ''&'' \<notin> set (QueryEscape s)" "CHR ''='' \<notin> set (QueryEscape s)"
  "CHR '';'' \<notin> set (QueryEscape s)"
  by (simp_all add: QueryEscape_def escapeByte_clean)

lemma encodePair_clean:
  "CHR ''&'' \<notin> set (encodePair kv)" "CHR '';'' \<notin> set (encodePair kv)" "encodePair kv \<noteq> []"
  by (simp_all add: encodePair_def QueryEscape_clean)

lemma Cut_no_sep: "sep \<notin> set s \<Longrightarrow> Cut s sep = (s, [], False)"
  by (induction s) (auto simp: Cut_def)

lemma Cut_at_sep: "sep \<notin> set s \<Longrightarrow> Cut (s @ sep # rest) sep = (s, rest, True)"
  by (induction s) (auto simp: Cut_def)

lemma Cut_encodePair:
  "Cut (encodePair kv) CHR ''='' = (QueryEscape (fst kv), QueryEscape (snd kv), True)"
  unfolding encodePair_def using Cut_at_sep [OF QueryEscape_clean(2)] by simp

lemma parseQuery_Nil: "parseQuery m [] = m"
  by (simp add: parseQuery.simps)

lemma parseQuery_segment:
  assumes "Cut q CHR ''&'' = (encodePair kv, rest, b)"
  shows "parseQuery m q = parseQuery (Values_append m (fst kv) (snd kv)) rest"
proof -
  have "q \<noteq> []" using assms encodePair_clean(3) [of kv] by (auto simp: Cut_def)
  then show ?thesis
    using assms
    by (subst parseQuery.simps)
      (simp add: Let_def encodePair_clean Cut_encodePair QueryUnescape_QueryEscape)
qed

lemma parseQuery_Join_encodePair:
  "parseQuery m (Join (map encodePair kvs) ''&'')
     = foldl (\<lambda>m kv. Values_append m (fst kv) (snd kv)) m kvs"
proof (induction kvs arbitrary: m)
  case Nil
  then show ?case by (simp add: parseQuery_Nil)
next
  case (Cons kv kvs)
  show ?case
  proof (cases kvs)
    case Nil
    have "Cut (encodePair kv) CHR ''&'' = (encodePair kv, [], False)"
      by (rule Cut_no_sep) (rule encodePair_clean)
    from parseQuery_segment [OF this] Nil show ?thesis
      by (simp add: parseQuery_Nil)
  next
    case (Cons kv' kvs')
    have "Cut (encodePair kv @ CHR ''&'' # Join (map encodePair kvs) ''&'') CHR ''&''
            = (encodePair kv, Join (map encodePair kvs) ''&'', True)"
      by (rule Cut_at_sep) (rule encodePair_clean)
    from parseQuery_segment [OF this] Cons Cons.IH show ?thesis
      by (simp)
  qed
qed

lemma Values_index_append:
  "Values_index (Values_append m k x) k'
     = (if k' = k then Values_index m k @ [x] else Values_index m k')"
  by (simp add: Values_append_def Values_index_def update_conv')


lemma Values_index_foldl_append:
  "Values_index (foldl (\<lambda>m kv. Values_append m (fst kv) (snd kv)) m kvs) k
     = Values_index m k @ map snd (filter (\<lambda>kv. fst kv = k) kvs)"
  by (induction kvs arbitrary: m) (simp_all add: Values_index_append)

lemma filter_concat_keys:
  assumes "distinct ks"
  shows "map snd (filter (\<lambda>kv. fst kv = k) (concat (map (\<lambda>k'. map (Pair k') (f k')) ks)))
           = (if k \<in> set ks then f k else [])"
  using assms
proof (induction ks)
  case Nil
  then show ?case by simp
next
  case (Cons a ks)
  have "filter (\<lambda>kv. fst kv = k) (map (Pair a) (f a)) = (if a = k then map (Pair a) (f a) else [])"
    by (induction "f a") (auto simp: filter_empty_conv)
  with Cons show ?case by (auto simp: comp_def)
qed

lemma Values_Encode_pairs:
  "Values_Encode v
     = Join (map encodePair (concat (map (\<lambda>k. map (Pair k) (Values_index v k))
                                         (sort (map fst v))))) ''&''"
  by (simp add: Values_Encode_def encodePair_def map_concat comp_def)

lemma Values_index_absent: "k \<notin> fst ` set v \<Longrightarrow> Values_index v k = []"
  by (simp add: Values_index_def map_of_eq_None_iff [THEN iffD2])

lemma ParseQuery_Encode_index:
  assumes "distinct (map fst v)"
  shows "Values_index (ParseQuery (Values_Encode v)) k = Values_index v k"
proof -
  have d: "distinct (sort (map fst v))" using assms by simp
  have "Values_index (ParseQuery (Values_Encode v)) k
          = (if k \<in> set (sort (map fst v)) then Values_index v k else [])"
    unfolding ParseQuery_def Values_Encode_pairs parseQuery_Join_encodePair
      Values_index_foldl_append filter_concat_keys [OF d]
    by (simp add: Values_index_def)
  then show ?thesis using Values_index_absent [of k v] by auto
qed

lemma Values_append_distinct:
  "distinct (map fst m) \<Longrightarrow> distinct (map fst (Values_append m k x))"
  by (simp add: Values_append_def distinct_update)

lemma Values_Set_distinct:
  "distinct (map fst m) \<Longrightarrow> distinct (map fst (Values_Set m k x))"
  by (simp add: Values_Set_def distinct_update)

lemma parseQuery_distinct:
  "distinct (map fst m) \<Longrightarrow> distinct (map fst (parseQuery m q))"
proof (induction m q rule: parseQuery.induct)
  case (1 m query)
  show ?case
    using "1.prems" "1.IH"
    by (subst parseQuery.simps)
      (auto simp: Let_def Values_append_distinct split: option.splits)
qed

lemma ParseQuery_distinct: "distinct (map fst (ParseQuery q))"
  by (simp add: ParseQuery_def parseQuery_distinct)

lemma call_distinct:
  "distinct (map fst (qb_values q)) \<Longrightarrow> distinct (map fst (qb_values (call s q)))"
  by (cases s)
    (simp_all add: setBool_def setString_def setStrings_def Values_Set_distinct
      split: option.splits)

lemma chain_distinct:
  "distinct (map fst (qb_values q)) \<Longrightarrow> distinct (map fst (qb_values (chain cs q)))"
  unfolding chain_def by (induction cs arbitrary: q) (simp_all add: call_distinct)

lemma reachable_distinct: "distinct (map fst (qb_values (chain cs (buildQuery r))))"
  by (rule chain_distinct) (simp add: buildQuery_def URL_Query_def ParseQuery_distinct)



lemma apply_query_count:
  assumes "distinct (map fst (qb_values q))"
  shows "query_count (RawQuery (qb_req (apply_qb q))) k = length (Values_index (qb_values q) k)"
  by (simp add: query_count_def apply_qb_def ParseQuery_Encode_index [OF assms])



subsection \<open>Applying twice, and duplicated keys\<close>




subsection \<open>Setters called with nothing to set\<close>

text \<open>
  Claim C8, as stated: after \<^verbatim>\<open>setBool\<close> with a nil pointer, \<^verbatim>\<open>setString\<close> with a
  blank value or \<^verbatim>\<open>setStrings\<close> with an empty list, the key is absent from the final
  query string, whatever the builder held before. It fails when the key is already
  in the builder, here from the request's own query: the call changes nothing, and
  the key stays.
\<close>

theorem absent_value_keeps_key_counterexample:
  "query_count (RawQuery (qb_req (apply_qb (setBool ''lang'' None
      (buildQuery (requestWithRawQuery ''lang=fr'')))))) ''lang'' = 1 \<and>
   query_count (RawQuery (qb_req (apply_qb (setString ''lang'' ''  ''
      (buildQuery (requestWithRawQuery ''lang=fr'')))))) ''lang'' = 1 \<and>
   query_count (RawQuery (qb_req (apply_qb (setStrings ''lang'' []
      (buildQuery (requestWithRawQuery ''lang=fr'')))))) ''lang'' = 1 \<and>
   RawQuery (qb_req (apply_qb (setString ''lang'' ''  ''
      (buildQuery (requestWithRawQuery ''lang=fr''))))) = ''lang=fr''"
  by code_simp

text \<open>
  Claim C8, amended. For every key, every request and every chain of earlier setter
  calls: \<^verbatim>\<open>setBool\<close> with a nil pointer, \<^verbatim>\<open>setString\<close> with an empty or
  whitespace-only value and \<^verbatim>\<open>setStrings\<close> with a nil or empty list each return the
  builder unchanged. After \<^verbatim>\<open>apply\<close> the key therefore occurs in the final query
  string exactly as often as it had values in the builder before the call: it is
  absent (not set to an empty value) when the builder did not hold it, and it stays
  when the request's original query or an earlier setter call had put it there.
\<close>

theorem absent_values_leave_builder_unchanged:
  assumes "q = chain cs (buildQuery r)"
    and "q' = setBool key None q \<or> (TrimSpace v = [] \<and> q' = setString key v q)
           \<or> q' = setStrings key [] q"
  shows "q' = q \<and>
         query_count (RawQuery (qb_req (apply_qb q'))) key
           = length (Values_index (qb_values q) key) \<and>
         (key \<notin> fst ` set (qb_values q) \<longrightarrow>
            query_count (RawQuery (qb_req (apply_qb q'))) key = 0)"
proof -
  from assms(2) have same: "q' = q"
    by (auto simp: setBool_def setString_def setStrings_def)
  have d: "distinct (map fst (qb_values q))"
    unfolding assms(1) by (rule reachable_distinct)
  from same apply_query_count [OF d, of key] Values_index_absent [of key "qb_values q"]
  show ?thesis by simp
qed

theorem absent_values_leave_builder_unchanged_witness:
  "TrimSpace ''  '' = [] \<and>
   ''lang'' \<notin> fst ` set (qb_values (chain [SetBool ''jitEnabled'' (Some True)]
      (buildQuery (requestWithRawQuery ''page=2'')))) \<and>
   query_count (RawQuery (qb_req (apply_qb (setString ''lang'' ''  ''
      (chain [SetBool ''jitEnabled'' (Some True)]
         (buildQuery (requestWithRawQuery ''page=2'')))))))
     ''lang'' = 0"
proof -
  let ?q = "chain [SetBool ''jitEnabled'' (Some True)]
      (buildQuery (requestWithRawQuery ''page=2''))"
  have b: "TrimSpace ''  '' = []"
    by code_simp
  have a: "''lang'' \<notin> fst ` set (qb_values ?q)"
    by code_simp
  have "setString ''lang'' ''  '' ?q = setBool ''lang'' None ?q
          \<or> (TrimSpace ''  '' = [] \<and> setString ''lang'' ''  '' ?q = setString ''lang'' ''  '' ?q)
          \<or> setString ''lang'' ''  '' ?q = setStrings ''lang'' [] ?q"
    using b by simp
  from absent_values_leave_builder_unchanged [OF refl this] a b
  show ?thesis by blast
qed

end
